theory Spec2Isabelle
  imports Main
begin

section \<open>Values, effects and completions\<close>

text \<open>
  The script \<^verbatim>\<open>src/chatbot.ts\<close> is a sequence of calls into the console, the file
  system, \<^verbatim>\<open>readline\<close> and external SDKs. The model records every such call as an
  event, in program order, and threads the two pieces of mutable state the script can
  observe: the file system and the conversation the agent has received so far.

  Strings are \<^typ>\<open>string\<close>. \<^verbatim>\<open>toLowerCase\<close> is modelled on the letters A to Z and is
  the identity on every other character; no character outside A to Z is mapped by
  ECMAScript's \<^verbatim>\<open>toLowerCase\<close> to one of the letters of \<^verbatim>\<open>exit\<close>.
\<close>

text \<open>A thrown value: an instance of \<^verbatim>\<open>Error\<close> with its message, or any other value.\<close>

datatype thrown = ErrorObj string | NonError string

text \<open>An argument of a console call: a string, a thrown value, or the stack of one.\<close>

datatype val = S string | V thrown | Stack thrown

record config =
  apiKeyName :: "string option"
  apiKeyPrivateKey :: "string option"
  cdpWalletData :: "string option"
  networkId :: string

datatype event =
    ConsoleLog "val list"
  | ConsoleWarn "val list"
  | ConsoleError "val list"
  | ExistsSync string
  | ReadFileSync string
  | WriteFileSync string string
  | NewChatOpenAI string
  | ConfigureWithWallet config
  | AgentKitFrom
  | GetLangChainTools
  | CreateReactAgent
  | ExportWallet
  | CreateInterface
  | Question string
  | LineRead string
  | AgentStream string string
  | RlClose
  | ProcessExit nat

text \<open>
  How a piece of the program ends: it returns a value, throws, ends the process through
  \<^verbatim>\<open>process.exit\<close> (nothing after it runs, neither a \<^verbatim>\<open>catch\<close> nor a \<^verbatim>\<open>finally\<close> block),
  or stays suspended on a promise that is never resolved.
\<close>

datatype 'a completion = Normal 'a | Throw thrown | Exit nat | Suspended

record state =
  files :: "string \<Rightarrow> string option"
  sent :: "string list"

type_synonym 'a prog = "state \<Rightarrow> event list \<times> 'a completion \<times> state"

definition pure :: "'a \<Rightarrow> 'a prog" where
  "pure v s = ([], Normal v, s)"

definition throw :: "thrown \<Rightarrow> 'a prog" where
  "throw e s = ([], Throw e, s)"

definition suspend :: "'a prog" where
  "suspend s = ([], Suspended, s)"

definition emit :: "event \<Rightarrow> unit prog" where
  "emit e s = ([e], Normal (), s)"

definition andThen :: "'a prog \<Rightarrow> ('a \<Rightarrow> 'b prog) \<Rightarrow> 'b prog" where
  "andThen m f s =
     (case m s of
        (evs, Normal v, s') \<Rightarrow> (case f v s' of (evs', r) \<Rightarrow> (evs @ evs', r))
      | (evs, Throw e, s') \<Rightarrow> (evs, Throw e, s')
      | (evs, Exit n, s') \<Rightarrow> (evs, Exit n, s')
      | (evs, Suspended, s') \<Rightarrow> (evs, Suspended, s'))"

text \<open>\<^verbatim>\<open>try { body } catch (error) { handler }\<close>: only a throw reaches the handler.\<close>

definition tryCatch :: "'a prog \<Rightarrow> (thrown \<Rightarrow> 'a prog) \<Rightarrow> 'a prog" where
  "tryCatch body handler s =
     (case body s of
        (evs, Throw e, s') \<Rightarrow> (case handler e s' of (evs', r) \<Rightarrow> (evs @ evs', r))
      | r \<Rightarrow> r)"

text \<open>
  \<^verbatim>\<open>try { body } catch (error) { handler } finally { finalizer }\<close>: the finalizer runs
  when the body or the handler returns or throws, and is never reached when one of them
  ends the process or stays suspended.
\<close>

definition tryCatchFinally :: "'a prog \<Rightarrow> (thrown \<Rightarrow> 'a prog) \<Rightarrow> unit prog \<Rightarrow> 'a prog" where
  "tryCatchFinally body handler finalizer s =
     (case tryCatch body handler s of
        (evs, Normal v, s') \<Rightarrow>
          (case andThen finalizer (\<lambda>_. pure v) s' of (evs', r) \<Rightarrow> (evs @ evs', r))
      | (evs, Throw e, s') \<Rightarrow>
          (case andThen finalizer (\<lambda>_. throw e) s' of (evs', r) \<Rightarrow> (evs @ evs', r))
      | r \<Rightarrow> r)"

definition console_log :: "val list \<Rightarrow> unit prog" where
  "console_log args = emit (ConsoleLog args)"

definition console_warn :: "val list \<Rightarrow> unit prog" where
  "console_warn args = emit (ConsoleWarn args)"

definition console_error :: "val list \<Rightarrow> unit prog" where
  "console_error args = emit (ConsoleError args)"

definition process_exit :: "nat \<Rightarrow> 'a prog" where
  "process_exit n s = ([ProcessExit n], Exit n, s)"

fun forEach :: "'a list \<Rightarrow> ('a \<Rightarrow> unit prog) \<Rightarrow> unit prog" where
  "forEach [] f = pure ()"
| "forEach (x # xs) f = andThen (f x) (\<lambda>_. forEach xs f)"

text \<open>JavaScript truthiness of a string that may be \<^verbatim>\<open>undefined\<close> or \<^verbatim>\<open>null\<close>.\<close>

definition falsy :: "string option \<Rightarrow> bool" where
  "falsy v = (case v of None \<Rightarrow> True | Some x \<Rightarrow> x = [])"

definition toLowerCase_char :: "char \<Rightarrow> char" where
  "toLowerCase_char c =
     (case map_of (zip ''ABCDEFGHIJKLMNOPQRSTUVWXYZ'' ''abcdefghijklmnopqrstuvwxyz'') c of
        Some l \<Rightarrow> l
      | None \<Rightarrow> c)"

definition toLowerCase :: "string \<Rightarrow> string" where
  "toLowerCase x = map toLowerCase_char x"

section \<open>The collaborators\<close>

text \<open>
  A streamed chunk is an object that may have an \<^verbatim>\<open>agent\<close> key and may have a \<^verbatim>\<open>tools\<close>
  key; the value under a key holds a list of messages. A response stream is the list of
  chunks it yields, then either its end or a thrown value; a stream that never ends is
  not represented.
\<close>

record message =
  content :: string

record chunk =
  agent :: "message list option"
  tools :: "message list option"

type_synonym response = "chunk list \<times> thrown option"

text \<open>
  The agent is stateful (it checkpoints the conversation), so the response to a message
  is a function of the messages it has received before and of the new message.
\<close>

record react_agent =
  stream :: "string list \<Rightarrow> string \<Rightarrow> thrown + response"

record agentConfig =
  thread_id :: string

text \<open>
  Everything outside the script that one run of it meets: the process environment (after
  \<^verbatim>\<open>dotenv.config()\<close>), whether the file is the main module, the lines that answer the
  successive prompts (\<open>stdin\<close>, in order), whether the file system refuses a read or a
  write, and what each SDK call returns or throws. \<^verbatim>\<open>JSON.stringify\<close> is a parameter as
  well.
\<close>

record 'wd world =
  env :: "string \<Rightarrow> string option"
  isMain :: bool
  stdin :: "string list"
  readFault :: "thrown option"
  writeFault :: "thrown option"
  newChatOpenAI :: "thrown option"
  configureWithWallet :: "config \<Rightarrow> thrown option"
  agentKitFrom :: "thrown option"
  getLangChainTools :: "thrown option"
  createReactAgent :: "thrown + react_agent"
  exportWallet :: "config \<Rightarrow> thrown + 'wd"
  JSON_stringify :: "'wd \<Rightarrow> string"

definition call :: "event \<Rightarrow> thrown option \<Rightarrow> unit prog" where
  "call e r = andThen (emit e) (\<lambda>_. case r of None \<Rightarrow> pure () | Some x \<Rightarrow> throw x)"

definition callResult :: "event \<Rightarrow> thrown + 'a \<Rightarrow> 'a prog" where
  "callResult e r = andThen (emit e) (\<lambda>_. case r of Inl x \<Rightarrow> throw x | Inr v \<Rightarrow> pure v)"

definition existsSync :: "string \<Rightarrow> bool prog" where
  "existsSync path s = ([ExistsSync path], Normal (files s path \<noteq> None), s)"

definition enoent :: thrown where
  "enoent = ErrorObj ''ENOENT: no such file or directory''"

definition readFileSync :: "'wd world \<Rightarrow> string \<Rightarrow> string prog" where
  "readFileSync w path s =
     ([ReadFileSync path],
      (case readFault w of
         Some x \<Rightarrow> Throw x
       | None \<Rightarrow> (case files s path of None \<Rightarrow> Throw enoent | Some d \<Rightarrow> Normal d)),
      s)"

definition writeFileSync :: "'wd world \<Rightarrow> string \<Rightarrow> string \<Rightarrow> unit prog" where
  "writeFileSync w path d s =
     (case writeFault w of
        Some x \<Rightarrow> ([WriteFileSync path d], Throw x, s)
      | None \<Rightarrow> ([WriteFileSync path d], Normal (), s\<lparr>files := (files s)(path \<mapsto> d)\<rparr>))"

text \<open>\<^verbatim>\<open>agent.stream({ messages: [new HumanMessage(m)] }, config)\<close>, awaited.\<close>

definition agentStream :: "react_agent \<Rightarrow> string \<Rightarrow> agentConfig \<Rightarrow> response prog" where
  "agentStream ag m cfg s =
     ([AgentStream m (thread_id cfg)],
      (case stream ag (sent s) m of Inl x \<Rightarrow> Throw x | Inr r \<Rightarrow> Normal r),
      s\<lparr>sent := sent s @ [m]\<rparr>)"

section \<open>validateEnvironment\<close>

definition requiredVars :: "string list" where
  "requiredVars = [''OPENAI_API_KEY'', ''CDP_API_KEY_NAME'', ''CDP_API_KEY_PRIVATE_KEY'']"

definition missingVars :: "'wd world \<Rightarrow> string list" where
  "missingVars w = filter (\<lambda>varName. falsy (env w varName)) requiredVars"

definition placeholder :: "string \<Rightarrow> string" where
  "placeholder varName = varName @ ''=your_'' @ toLowerCase varName @ ''_here''"

definition validateEnvironment :: "'wd world \<Rightarrow> unit prog" where
  "validateEnvironment w =
     andThen
       (if 0 < length (missingVars w) then
          andThen (console_error [S ''Error: Required environment variables are not set''])
            (\<lambda>_. andThen
               (forEach (missingVars w) (\<lambda>varName. console_error [S (placeholder varName)]))
               (\<lambda>_. process_exit 1))
        else pure ())
       (\<lambda>_. if falsy (env w ''NETWORK_ID'') then
               console_warn [S ''Warning: NETWORK_ID not set, defaulting to base-sepolia testnet'']
             else pure ())"

section \<open>initializeAgent\<close>

definition WALLET_DATA_FILE :: string where
  "WALLET_DATA_FILE = ''wallet_data.txt''"

text \<open>Lines 53 to 63: the value of \<^verbatim>\<open>walletDataStr\<close> after the optional read.\<close>

definition readWalletData :: "'wd world \<Rightarrow> string option prog" where
  "readWalletData w =
     andThen (existsSync WALLET_DATA_FILE)
       (\<lambda>found. if found then
            tryCatch
              (andThen (readFileSync w WALLET_DATA_FILE) (\<lambda>d. pure (Some d)))
              (\<lambda>error. andThen (console_error [S ''Error reading wallet data:'', V error])
                 (\<lambda>_. pure None))
          else pure None)"

text \<open>Lines 65 to 70: \<^verbatim>\<open>a || b\<close> takes \<^verbatim>\<open>b\<close> when \<^verbatim>\<open>a\<close> is falsy.\<close>

definition makeConfig :: "'wd world \<Rightarrow> string option \<Rightarrow> config" where
  "makeConfig w walletDataStr =
     \<lparr> apiKeyName = env w ''CDP_API_KEY_NAME'',
       apiKeyPrivateKey = env w ''CDP_API_KEY_PRIVATE_KEY'',
       cdpWalletData = (if falsy walletDataStr then None else walletDataStr),
       networkId = (case env w ''NETWORK_ID'' of
                      None \<Rightarrow> ''base-sepolia''
                    | Some x \<Rightarrow> if x = [] then ''base-sepolia'' else x) \<rparr>"

definition initializeAgent :: "'wd world \<Rightarrow> (react_agent \<times> agentConfig) prog" where
  "initializeAgent w =
     tryCatch
       (andThen (call (NewChatOpenAI ''gpt-4o-mini'') (newChatOpenAI w))
       (\<lambda>_. andThen (readWalletData w)
       (\<lambda>walletDataStr. andThen (call (ConfigureWithWallet (makeConfig w walletDataStr))
                                   (configureWithWallet w (makeConfig w walletDataStr)))
       (\<lambda>_. andThen (call AgentKitFrom (agentKitFrom w))
       (\<lambda>_. andThen (call GetLangChainTools (getLangChainTools w))
       (\<lambda>_. andThen (callResult CreateReactAgent (createReactAgent w))
       (\<lambda>ag. andThen (callResult ExportWallet (exportWallet w (makeConfig w walletDataStr)))
       (\<lambda>exportedWallet.
             andThen (writeFileSync w WALLET_DATA_FILE (JSON_stringify w exportedWallet))
       (\<lambda>_. pure (ag, \<lparr> thread_id = ''CDP AgentKit Chatbot Example!'' \<rparr>))))))))))
       (\<lambda>error. andThen (console_error [S ''Failed to initialize agent:'', V error])
          (\<lambda>_. throw error))"

section \<open>runChatMode\<close>

text \<open>Reading \<^verbatim>\<open>messages[0].content\<close>: on an empty list this is a property of \<^verbatim>\<open>undefined\<close>.\<close>

definition typeError :: thrown where
  "typeError = ErrorObj ''Cannot read properties of undefined (reading 'content')''"

definition firstContent :: "message list \<Rightarrow> string prog" where
  "firstContent ms = (case ms of [] \<Rightarrow> throw typeError | m # _ \<Rightarrow> pure (content m))"

definition separator :: string where
  "separator = ''-------------------''"

text \<open>The body of both \<^verbatim>\<open>for await\<close> loops (lines 140 to 145 and 162 to 167).\<close>

definition printChunk :: "chunk \<Rightarrow> unit prog" where
  "printChunk c =
     andThen
       (case agent c of
          Some ms \<Rightarrow> andThen (firstContent ms) (\<lambda>x. console_log [S x])
        | None \<Rightarrow>
            (case tools c of
               Some ms \<Rightarrow> andThen (firstContent ms) (\<lambda>x. console_log [S x])
             | None \<Rightarrow> pure ()))
       (\<lambda>_. console_log [S separator])"

fun forAwait :: "chunk list \<Rightarrow> thrown option \<Rightarrow> unit prog" where
  "forAwait [] None = pure ()"
| "forAwait [] (Some x) = throw x"
| "forAwait (c # cs) ending = andThen (printChunk c) (\<lambda>_. forAwait cs ending)"

definition isExit :: "string \<Rightarrow> bool" where
  "isExit userInput = (toLowerCase userInput = ''exit'')"

text \<open>
  The \<^verbatim>\<open>while (true)\<close> loop, by recursion on the lines that standard input still holds.
  When none is left the promise of \<^verbatim>\<open>question\<close> is never resolved: standard input stays
  open and silent. A standard input that is closed (where the process would end at the
  pending prompt, or \<^verbatim>\<open>rl.question\<close> would throw) is not represented.
\<close>

fun chatLoop :: "react_agent \<Rightarrow> agentConfig \<Rightarrow> string list \<Rightarrow> unit prog" where
  "chatLoop ag cfg [] = andThen (emit (Question ''> '')) (\<lambda>_. suspend)"
| "chatLoop ag cfg (userInput # rest) =
     andThen (emit (Question ''> ''))
       (\<lambda>_. andThen (emit (LineRead userInput))
       (\<lambda>_. if isExit userInput then console_log [S ''Exiting...'']
             else andThen (agentStream ag userInput cfg)
               (\<lambda>r. andThen (forAwait (fst r) (snd r))
               (\<lambda>_. chatLoop ag cfg rest))))"

definition initialPrompt :: string where
  "initialPrompt = ''What game can the user play against the agent?''"

text \<open>The \<^verbatim>\<open>try\<close> block of \<^verbatim>\<open>runChatMode\<close> (lines 132 to 169).\<close>

definition chatSession :: "react_agent \<Rightarrow> agentConfig \<Rightarrow> string list \<Rightarrow> unit prog" where
  "chatSession ag cfg lines =
     andThen (console_log [S (''\<newline>Prompt: '' @ initialPrompt)])
       (\<lambda>_. andThen (agentStream ag initialPrompt cfg)
       (\<lambda>r. andThen (forAwait (fst r) (snd r))
       (\<lambda>_. chatLoop ag cfg lines)))"

definition runChatMode :: "react_agent \<Rightarrow> agentConfig \<Rightarrow> string list \<Rightarrow> unit prog" where
  "runChatMode ag cfg lines =
     andThen (console_log [S ''Running in chat mode... Type 'exit' to quit''])
       (\<lambda>_. andThen (emit CreateInterface)
       (\<lambda>_. tryCatchFinally
          (chatSession ag cfg lines)
          (\<lambda>error. andThen
             (case error of
                ErrorObj msg \<Rightarrow> console_error [S ''Error:'', S msg]
              | NonError _ \<Rightarrow> pure ())
             (\<lambda>_. process_exit 1))
          (emit RlClose)))"

section \<open>main and the script\<close>

definition main :: "'wd world \<Rightarrow> unit prog" where
  "main w =
     tryCatch
       (andThen (console_log [S ''Initializing agent...''])
       (\<lambda>_. andThen (initializeAgent w)
       (\<lambda>r. andThen (console_log [S ''Agent initialized successfully.''])
       (\<lambda>_. andThen (console_log [S ''Starting chat mode...''])
       (\<lambda>_. runChatMode (fst r) (snd r) (stdin w))))))
       (\<lambda>error. andThen
          (case error of
             ErrorObj msg \<Rightarrow>
               andThen (console_error [S ''Detailed error:'', V error])
                 (\<lambda>_. console_error [S ''Error stack:'', Stack error])
           | NonError _ \<Rightarrow> pure ())
          (\<lambda>_. process_exit 1))"

text \<open>The module body: line 39, then lines 197 to 200.\<close>

definition chatbot :: "'wd world \<Rightarrow> unit prog" where
  "chatbot w =
     andThen (validateEnvironment w)
       (\<lambda>_. if isMain w then
               andThen (console_log [S ''Starting chatbot...'']) (\<lambda>_. main w)
             else pure ())"

text \<open>
  The status the process ends with: the argument of \<^verbatim>\<open>process.exit\<close>, 0 when the script
  runs to its end, 1 for an uncaught throw; no status while the run is suspended.
\<close>

definition exitStatus :: "'a completion \<Rightarrow> nat option" where
  "exitStatus r =
     (case r of Normal _ \<Rightarrow> Some 0 | Throw _ \<Rightarrow> Some 1 | Exit n \<Rightarrow> Some n | Suspended \<Rightarrow> None)"

definition start :: "(string \<Rightarrow> string option) \<Rightarrow> state" where
  "start fs = \<lparr> files = fs, sent = [] \<rparr>"

text \<open>What running a program from a state prints and calls, how it ends, and the state it leaves.\<close>

definition events :: "'a prog \<Rightarrow> state \<Rightarrow> event list" where
  "events m s = fst (m s)"

definition outcome :: "'a prog \<Rightarrow> state \<Rightarrow> 'a completion" where
  "outcome m s = fst (snd (m s))"

definition final :: "'a prog \<Rightarrow> state \<Rightarrow> state" where
  "final m s = snd (snd (m s))"

text \<open>The events that access a given path, and the accesses among a list of events.\<close>

fun touches :: "string \<Rightarrow> event \<Rightarrow> bool" where
  "touches path (ExistsSync p) = (p = path)"
| "touches path (ReadFileSync p) = (p = path)"
| "touches path (WriteFileSync p d) = (p = path)"
| "touches path _ = False"

definition fileAccesses :: "string \<Rightarrow> event list \<Rightarrow> event list" where
  "fileAccesses path evs = filter (touches path) evs"

text \<open>The events that initialization can produce, and those the chat loop can produce.\<close>

definition initEvents :: "'wd world \<Rightarrow> event set" where
  "initEvents w =
     range NewChatOpenAI \<union> {ExistsSync WALLET_DATA_FILE, ReadFileSync WALLET_DATA_FILE}
     \<union> range ConsoleError \<union> ConfigureWithWallet ` range (makeConfig w)
     \<union> {AgentKitFrom, GetLangChainTools, CreateReactAgent, ExportWallet}
     \<union> range (WriteFileSync WALLET_DATA_FILE)"

definition chatEvents :: "agentConfig \<Rightarrow> event set" where
  "chatEvents cfg =
     range ConsoleLog \<union> range Question \<union> range LineRead
     \<union> range (\<lambda>m. AgentStream m (thread_id cfg))"

text \<open>What the wrapper of the try block adds.\<close>

definition epilogue :: "unit completion \<Rightarrow> event list" where
  "epilogue r =
     (case r of
        Normal _ \<Rightarrow> [RlClose]
      | Throw (ErrorObj msg) \<Rightarrow> [ConsoleError [S ''Error:'', S msg], ProcessExit 1]
      | Throw (NonError _) \<Rightarrow> [ProcessExit 1]
      | _ \<Rightarrow> [])"

text \<open>What the \<^verbatim>\<open>catch\<close> block of \<^verbatim>\<open>main\<close> does with a thrown value.\<close>

definition mainHandlerEvents :: "thrown \<Rightarrow> event list" where
  "mainHandlerEvents e =
     (case e of
        ErrorObj msg \<Rightarrow>
          [ConsoleError [S ''Detailed error:'', V e], ConsoleError [S ''Error stack:'', Stack e]]
      | NonError _ \<Rightarrow> [])
     @ [ProcessExit 1]"

text \<open>The messages passed to the agent and the lines read, in order, among a list of events.\<close>

fun forwarded :: "event list \<Rightarrow> string list" where
  "forwarded [] = []"
| "forwarded (AgentStream m t # evs) = m # forwarded evs"
| "forwarded (e # evs) = forwarded evs"

fun linesRead :: "event list \<Rightarrow> string list" where
  "linesRead [] = []"
| "linesRead (LineRead l # evs) = l # linesRead evs"
| "linesRead (e # evs) = linesRead evs"



text \<open>The events that precede the chat: validation, the banners and initialization.\<close>

definition startupEvents :: "'wd world \<Rightarrow> event set" where
  "startupEvents w =
     initEvents w \<union> range ConsoleLog \<union> range ConsoleWarn \<union> {ProcessExit 1}"

section \<open>Concrete runs\<close>

text \<open>An agent that answers every message with one chunk from the model, and one that throws.\<close>

definition agent_hi :: react_agent where
  "agent_hi =
     \<lparr> stream = (\<lambda>h m. Inr ([\<lparr> agent = Some [\<lparr> content = ''hi'' \<rparr>], tools = None \<rparr>], None)) \<rparr>"

definition agent_boom :: react_agent where
  "agent_boom = \<lparr> stream = (\<lambda>h m. Inl (ErrorObj ''boom'')) \<rparr>"

definition config0 :: agentConfig where
  "config0 = \<lparr> thread_id = ''CDP AgentKit Chatbot Example!'' \<rparr>"

definition env_ok :: "string \<Rightarrow> string option" where
  "env_ok =
     map_of [(''OPENAI_API_KEY'', ''sk''), (''CDP_API_KEY_NAME'', ''name''),
             (''CDP_API_KEY_PRIVATE_KEY'', ''key'')]"

definition env_partial :: "string \<Rightarrow> string option" where
  "env_partial = map_of [(''OPENAI_API_KEY'', ''sk''), (''CDP_API_KEY_NAME'', [])]"

definition env_none :: "string \<Rightarrow> string option" where
  "env_none = map_of []"

definition world_ok :: "string world" where
  "world_ok =
     \<lparr> env = env_ok, isMain = True, stdin = [''hello'', ''EXIT'', ''more''],
       readFault = None, writeFault = None, newChatOpenAI = None,
       configureWithWallet = (\<lambda>c. None), agentKitFrom = None, getLangChainTools = None,
       createReactAgent = Inr agent_hi, exportWallet = (\<lambda>c. Inr ''W''),
       JSON_stringify = (\<lambda>x. ''{'' @ x @ ''}'') \<rparr>"

definition world_partial :: "string world" where
  "world_partial = world_ok \<lparr> env := env_partial \<rparr>"

definition world_none :: "string world" where
  "world_none = world_ok \<lparr> env := env_none \<rparr>"

definition world_unreadable :: "string world" where
  "world_unreadable = world_ok \<lparr> readFault := Some (ErrorObj ''EACCES: permission denied'') \<rparr>"

definition world_trailing :: "string world" where
  "world_trailing = world_ok \<lparr> stdin := [''exit '', '' exit'', ''quit''] \<rparr>"

definition fs_empty :: "string \<Rightarrow> string option" where
  "fs_empty = map_of []"

definition fs_old :: "string \<Rightarrow> string option" where
  "fs_old = map_of [(''wallet_data.txt'', ''old'')]"

definition chunk_agent :: chunk where
  "chunk_agent = \<lparr> agent = Some [\<lparr> content = ''hi'' \<rparr>], tools = None \<rparr>"

definition chunk_tools :: chunk where
  "chunk_tools =
     \<lparr> agent = None, tools = Some [\<lparr> content = ''42'' \<rparr>, \<lparr> content = ''43'' \<rparr>] \<rparr>"

definition chunk_plain :: chunk where
  "chunk_plain = \<lparr> agent = None, tools = None \<rparr>"

definition chunk_empty_agent :: chunk where
  "chunk_empty_agent = \<lparr> agent = Some [], tools = Some [\<lparr> content = ''42'' \<rparr>] \<rparr>"

section \<open>Running composed programs\<close>

lemma events_andThen [simp]:
  "events (andThen m f) s =
     (case outcome m s of Normal v \<Rightarrow> events m s @ events (f v) (final m s) | _ \<Rightarrow> events m s)"
  by (simp add: events_def outcome_def final_def andThen_def split: prod.splits completion.splits)

lemma outcome_andThen [simp]:
  "outcome (andThen m f) s =
     (case outcome m s of Normal v \<Rightarrow> outcome (f v) (final m s) | Throw e \<Rightarrow> Throw e
      | Exit n \<Rightarrow> Exit n | Suspended \<Rightarrow> Suspended)"
  by (simp add: events_def outcome_def final_def andThen_def split: prod.splits completion.splits)

lemma final_andThen [simp]:
  "final (andThen m f) s =
     (case outcome m s of Normal v \<Rightarrow> final (f v) (final m s) | _ \<Rightarrow> final m s)"
  by (simp add: events_def outcome_def final_def andThen_def split: prod.splits completion.splits)

lemma events_tryCatch [simp]:
  "events (tryCatch m h) s =
     (case outcome m s of Throw e \<Rightarrow> events m s @ events (h e) (final m s) | _ \<Rightarrow> events m s)"
  by (simp add: events_def outcome_def final_def tryCatch_def split: prod.splits completion.splits)

lemma outcome_tryCatch [simp]:
  "outcome (tryCatch m h) s =
     (case outcome m s of Throw e \<Rightarrow> outcome (h e) (final m s) | r \<Rightarrow> r)"
  by (simp add: events_def outcome_def final_def tryCatch_def split: prod.splits completion.splits)

lemma final_tryCatch [simp]:
  "final (tryCatch m h) s =
     (case outcome m s of Throw e \<Rightarrow> final (h e) (final m s) | _ \<Rightarrow> final m s)"
  by (simp add: events_def outcome_def final_def tryCatch_def split: prod.splits completion.splits)

lemma events_tryCatchFinally [simp]:
  "events (tryCatchFinally m h fin) s =
     (case outcome (tryCatch m h) s of
        Normal v \<Rightarrow> events (tryCatch m h) s @ events fin (final (tryCatch m h) s)
      | Throw e \<Rightarrow> events (tryCatch m h) s @ events fin (final (tryCatch m h) s)
      | _ \<Rightarrow> events (tryCatch m h) s)"
  by (simp add: events_def outcome_def final_def tryCatchFinally_def andThen_def pure_def throw_def
      split: prod.splits completion.splits)

lemma outcome_tryCatchFinally [simp]:
  "outcome (tryCatchFinally m h fin) s =
     (case outcome (tryCatch m h) s of
        Normal v \<Rightarrow> (case outcome fin (final (tryCatch m h) s) of
                       Normal _ \<Rightarrow> Normal v | Throw e \<Rightarrow> Throw e | Exit n \<Rightarrow> Exit n
                     | Suspended \<Rightarrow> Suspended)
      | Throw e \<Rightarrow> (case outcome fin (final (tryCatch m h) s) of
                       Normal _ \<Rightarrow> Throw e | Throw e' \<Rightarrow> Throw e' | Exit n \<Rightarrow> Exit n
                     | Suspended \<Rightarrow> Suspended)
      | r \<Rightarrow> r)"
  by (simp add: events_def outcome_def final_def tryCatchFinally_def andThen_def pure_def throw_def
      split: prod.splits completion.splits)

lemma run_pure [simp]:
  "events (pure v) s = []" "outcome (pure v) s = Normal v" "final (pure v) s = s"
  by (simp_all add: events_def outcome_def final_def pure_def)

lemma run_throw [simp]:
  "events (throw e) s = []" "outcome (throw e) s = Throw e" "final (throw e) s = s"
  by (simp_all add: events_def outcome_def final_def throw_def)

lemma run_suspend [simp]:
  "events suspend s = []" "outcome suspend s = Suspended" "final suspend s = s"
  by (simp_all add: events_def outcome_def final_def suspend_def)

lemma run_emit [simp]:
  "events (emit e) s = [e]" "outcome (emit e) s = Normal ()" "final (emit e) s = s"
  by (simp_all add: events_def outcome_def final_def emit_def)

lemma run_process_exit [simp]:
  "events (process_exit n) s = [ProcessExit n]" "outcome (process_exit n) s = Exit n"
  "final (process_exit n) s = s"
  by (simp_all add: events_def outcome_def final_def process_exit_def)

lemma run_console [simp]:
  "events (console_log a) s = [ConsoleLog a]" "outcome (console_log a) s = Normal ()"
  "final (console_log a) s = s"
  "events (console_warn a) s = [ConsoleWarn a]" "outcome (console_warn a) s = Normal ()"
  "final (console_warn a) s = s"
  "events (console_error a) s = [ConsoleError a]" "outcome (console_error a) s = Normal ()"
  "final (console_error a) s = s"
  by (simp_all add: console_log_def console_warn_def console_error_def)

lemma run_call [simp]:
  "events (call e r) s = [e]"
  "outcome (call e r) s = (case r of None \<Rightarrow> Normal () | Some x \<Rightarrow> Throw x)"
  "final (call e r) s = s"
  by (simp_all add: call_def split: option.splits)

lemma run_callResult [simp]:
  "events (callResult e r) s = [e]"
  "outcome (callResult e r) s = (case r of Inl x \<Rightarrow> Throw x | Inr v \<Rightarrow> Normal v)"
  "final (callResult e r) s = s"
  by (simp_all add: callResult_def split: sum.splits)

lemma run_existsSync [simp]:
  "events (existsSync p) s = [ExistsSync p]"
  "outcome (existsSync p) s = Normal (files s p \<noteq> None)"
  "final (existsSync p) s = s"
  by (simp_all add: events_def outcome_def final_def existsSync_def)

lemma run_readFileSync [simp]:
  "events (readFileSync w p) s = [ReadFileSync p]"
  "outcome (readFileSync w p) s =
     (case readFault w of Some x \<Rightarrow> Throw x
      | None \<Rightarrow> (case files s p of None \<Rightarrow> Throw enoent | Some d \<Rightarrow> Normal d))"
  "final (readFileSync w p) s = s"
  by (simp_all add: events_def outcome_def final_def readFileSync_def)

lemma run_writeFileSync [simp]:
  "events (writeFileSync w p d) s = [WriteFileSync p d]"
  "outcome (writeFileSync w p d) s = (case writeFault w of Some x \<Rightarrow> Throw x | None \<Rightarrow> Normal ())"
  "final (writeFileSync w p d) s =
     (case writeFault w of Some x \<Rightarrow> s | None \<Rightarrow> s\<lparr>files := (files s)(p \<mapsto> d)\<rparr>)"
  by (simp_all add: events_def outcome_def final_def writeFileSync_def split: option.splits)

lemma run_agentStream [simp]:
  "events (agentStream ag m cfg) s = [AgentStream m (thread_id cfg)]"
  "outcome (agentStream ag m cfg) s =
     (case stream ag (sent s) m of Inl x \<Rightarrow> Throw x | Inr r \<Rightarrow> Normal r)"
  "final (agentStream ag m cfg) s = s\<lparr>sent := sent s @ [m]\<rparr>"
  by (simp_all add: events_def outcome_def final_def agentStream_def)

lemma run_forEach_console_error [simp]:
  "events (forEach xs (\<lambda>x. console_error (g x))) s = map (\<lambda>x. ConsoleError (g x)) xs"
  "outcome (forEach xs (\<lambda>x. console_error (g x))) s = Normal ()"
  "final (forEach xs (\<lambda>x. console_error (g x))) s = s"
  by (induction xs) simp_all

section \<open>The Environment Validator\<close>

lemma falsy_iff: "falsy v \<longleftrightarrow> v = None \<or> v = Some []"
  by (simp add: falsy_def split: option.splits)

lemma missingVars_Nil: "missingVars w = [] \<longleftrightarrow> (\<forall>v \<in> set requiredVars. \<not> falsy (env w v))"
  by (auto simp: missingVars_def filter_empty_conv)

text \<open>
  C4. \<^verbatim>\<open>validateEnvironment\<close> ends the process with status 1 exactly when one of the three
  required variables is absent or empty. When it does, it prints the heading and then one
  placeholder assignment \<^verbatim>\<open>NAME=your_name_here\<close> for every missing variable, in the order
  of the list of required names, before it exits. When all three are present it returns
  and the process is not ended.
\<close>

theorem validateEnvironment_exit_iff_missing:
  "(outcome (validateEnvironment w) s = Exit 1 \<longleftrightarrow>
      (\<exists>v \<in> set requiredVars. env w v = None \<or> env w v = Some []))
   \<and> (outcome (validateEnvironment w) s = Exit 1 \<longrightarrow>
        events (validateEnvironment w) s =
          ConsoleError [S ''Error: Required environment variables are not set'']
          # map (\<lambda>v. ConsoleError [S (v @ ''=your_'' @ toLowerCase v @ ''_here'')])
              (filter (\<lambda>v. env w v = None \<or> env w v = Some []) requiredVars)
          @ [ProcessExit 1])
   \<and> (outcome (validateEnvironment w) s \<noteq> Exit 1 \<longrightarrow>
        outcome (validateEnvironment w) s = Normal ()
        \<and> (\<forall>n. ProcessExit n \<notin> set (events (validateEnvironment w) s)))"
proof -
  have m: "missingVars w = filter (\<lambda>v. env w v = None \<or> env w v = Some []) requiredVars"
    by (simp add: missingVars_def falsy_iff)
  show ?thesis
  proof (cases "missingVars w = []")
    case True
    then have "\<not> (\<exists>v \<in> set requiredVars. env w v = None \<or> env w v = Some [])"
      by (simp add: missingVars_Nil falsy_iff)
    with True show ?thesis
      by (simp add: validateEnvironment_def)
  next
    case False
    then have "\<exists>v \<in> set requiredVars. env w v = None \<or> env w v = Some []"
      by (simp add: missingVars_Nil falsy_iff)
    with False show ?thesis
      by (simp add: validateEnvironment_def placeholder_def m [symmetric])
  qed
qed

theorem validateEnvironment_exit_iff_missing_witness:
  "outcome (validateEnvironment world_partial) (start fs_empty) = Exit 1
   \<and> events (validateEnvironment world_partial) (start fs_empty) =
       [ConsoleError [S ''Error: Required environment variables are not set''],
        ConsoleError [S ''CDP_API_KEY_NAME=your_cdp_api_key_name_here''],
        ConsoleError [S ''CDP_API_KEY_PRIVATE_KEY=your_cdp_api_key_private_key_here''],
        ProcessExit 1]
   \<and> outcome (validateEnvironment world_ok) (start fs_empty) = Normal ()
   \<and> ProcessExit 1 \<notin> set (events (validateEnvironment world_ok) (start fs_empty))"
  using validateEnvironment_exit_iff_missing [of world_partial "start fs_empty"]
    validateEnvironment_exit_iff_missing [of world_ok "start fs_empty"]
  by (simp add: world_partial_def world_ok_def env_partial_def env_ok_def requiredVars_def
      toLowerCase_def toLowerCase_char_def)

section \<open>Streamed chunks\<close>

lemma run_firstContent [simp]:
  "events (firstContent ms) s = []"
  "outcome (firstContent ms) s = (case ms of [] \<Rightarrow> Throw typeError | m # _ \<Rightarrow> Normal (content m))"
  "final (firstContent ms) s = s"
  by (simp_all add: firstContent_def split: list.splits)

lemma final_printChunk [simp]: "final (printChunk c) s = s"
  by (simp add: printChunk_def split: option.splits list.splits)


lemma final_forAwait [simp]: "final (forAwait cs ending) s = s"
  by (induction cs ending rule: forAwait.induct) (simp_all split: completion.splits)

lemma printChunk_ConsoleLog: "set (events (printChunk c) s) \<subseteq> range ConsoleLog"
  by (auto simp: printChunk_def split: option.splits list.splits)

lemma forAwait_ConsoleLog: "set (events (forAwait cs ending) s) \<subseteq> range ConsoleLog"
proof (induction cs ending rule: forAwait.induct)
  case (3 c cs ending)
  then show ?case
    using printChunk_ConsoleLog [of c s] by (auto split: completion.splits)
qed simp_all

lemma forAwait_wellFormed:
  "\<forall>c \<in> set cs. outcome (printChunk c) s = Normal () \<Longrightarrow>
     events (forAwait cs ending) s = concat (map (\<lambda>c. events (printChunk c) s) cs)
     \<and> outcome (forAwait cs ending) s = (case ending of None \<Rightarrow> Normal () | Some x \<Rightarrow> Throw x)"
  by (induction cs ending rule: forAwait.induct) simp_all

lemma printChunk_wellFormed:
  assumes "agent c \<noteq> Some [] \<and> (agent c = None \<longrightarrow> tools c \<noteq> Some [])"
  shows "outcome (printChunk c) s = Normal ()"
  using assms by (cases "agent c"; cases "tools c") (auto simp: printChunk_def split: list.splits)

lemma forAwait_drains:
  assumes "\<forall>c \<in> set cs. agent c \<noteq> Some [] \<and> (agent c = None \<longrightarrow> tools c \<noteq> Some [])"
  shows "events (forAwait cs None) s = concat (map (\<lambda>c. events (printChunk c) s) cs)"
    and "outcome (forAwait cs None) s = Normal ()"
  using forAwait_wellFormed [of cs s None] assms printChunk_wellFormed by simp_all

text \<open>
  C5, as amended. For every chunk whose inspected key (\<^verbatim>\<open>agent\<close> when the chunk has it,
  otherwise \<^verbatim>\<open>tools\<close>) holds at least one message, the content of the first message under
  that key is printed and then the separator; a chunk with neither key prints the
  separator alone. So a separator line follows every chunk whose inspected key is absent
  or holds a message, and a stream of such chunks is consumed chunk by chunk, in order, to
  its end.
\<close>

theorem printChunk_prints_first_message:
  "(agent c = Some (m # ms) \<longrightarrow>
      events (printChunk c) s = [ConsoleLog [S (content m)], ConsoleLog [S ''-------------------'']]
      \<and> outcome (printChunk c) s = Normal ())
   \<and> (agent c = None \<and> tools c = Some (m # ms) \<longrightarrow>
      events (printChunk c) s = [ConsoleLog [S (content m)], ConsoleLog [S ''-------------------'']]
      \<and> outcome (printChunk c) s = Normal ())
   \<and> (agent c = None \<and> tools c = None \<longrightarrow>
      events (printChunk c) s = [ConsoleLog [S ''-------------------'']]
      \<and> outcome (printChunk c) s = Normal ())
   \<and> (agent c \<noteq> Some [] \<and> (agent c = None \<longrightarrow> tools c \<noteq> Some []) \<longrightarrow>
      outcome (printChunk c) s = Normal ()
      \<and> last (events (printChunk c) s) = ConsoleLog [S ''-------------------''])
   \<and> (outcome (printChunk c) s = Normal () \<longrightarrow>
      last (events (printChunk c) s) = ConsoleLog [S ''-------------------''])
   \<and> ((\<forall>c \<in> set cs. agent c \<noteq> Some [] \<and> (agent c = None \<longrightarrow> tools c \<noteq> Some [])) \<longrightarrow>
      events (forAwait cs None) s = concat (map (\<lambda>c. events (printChunk c) s) cs)
      \<and> outcome (forAwait cs None) s = Normal ())"
proof -
  have l: "last (events (printChunk c) s) = ConsoleLog [S ''-------------------'']"
    if "outcome (printChunk c) s = Normal ()"
    using that by (simp add: printChunk_def separator_def split: option.splits list.splits)
  have "outcome (printChunk c) s = Normal ()
      \<and> last (events (printChunk c) s) = ConsoleLog [S ''-------------------'']"
    if "agent c \<noteq> Some [] \<and> (agent c = None \<longrightarrow> tools c \<noteq> Some [])"
    using printChunk_wellFormed [OF that, of s] l by simp
  moreover have "events (forAwait cs None) s = concat (map (\<lambda>c. events (printChunk c) s) cs)
        \<and> outcome (forAwait cs None) s = Normal ()"
    if "\<forall>c \<in> set cs. agent c \<noteq> Some [] \<and> (agent c = None \<longrightarrow> tools c \<noteq> Some [])"
    using forAwait_drains [OF that, of s] by simp
  moreover note l
  ultimately show ?thesis
    by (simp add: printChunk_def separator_def)
qed

theorem printChunk_prints_first_message_witness:
  "events (printChunk chunk_agent) (start fs_empty) =
     [ConsoleLog [S ''hi''], ConsoleLog [S ''-------------------'']]
   \<and> events (printChunk chunk_tools) (start fs_empty) =
     [ConsoleLog [S ''42''], ConsoleLog [S ''-------------------'']]
   \<and> events (printChunk chunk_plain) (start fs_empty) = [ConsoleLog [S ''-------------------'']]
   \<and> events (forAwait [chunk_agent, chunk_tools, chunk_plain] None) (start fs_empty) =
     [ConsoleLog [S ''hi''], ConsoleLog [S ''-------------------''],
      ConsoleLog [S ''42''], ConsoleLog [S ''-------------------''],
      ConsoleLog [S ''-------------------'']]"
  using
    printChunk_prints_first_message [where c = chunk_agent and m = "\<lparr> content = ''hi'' \<rparr>"
      and ms = "[]" and s = "start fs_empty" and cs = "[chunk_agent, chunk_tools, chunk_plain]"]
    printChunk_prints_first_message [where c = chunk_tools and m = "\<lparr> content = ''42'' \<rparr>"
      and ms = "[\<lparr> content = ''43'' \<rparr>]" and s = "start fs_empty" and cs = "[]"]
    printChunk_prints_first_message [where c = chunk_plain and s = "start fs_empty" and cs = "[]"]
  by (simp add: chunk_agent_def chunk_tools_def chunk_plain_def)

text \<open>
  C5 as stated fails: for a chunk whose \<^verbatim>\<open>agent\<close> key holds an empty list of messages and
  whose \<^verbatim>\<open>tools\<close> key holds a message, reading \<^verbatim>\<open>messages[0].content\<close> throws; neither the
  message under \<^verbatim>\<open>tools\<close> nor the separator is printed.
\<close>

theorem empty_message_list_counterexample:
  "events (printChunk chunk_empty_agent) (start fs_empty) = []
   \<and> outcome (printChunk chunk_empty_agent) (start fs_empty) = Throw typeError
   \<and> ConsoleLog [S ''42''] \<notin> set (events (printChunk chunk_empty_agent) (start fs_empty))
   \<and> ConsoleLog [S ''-------------------'']
       \<notin> set (events (printChunk chunk_empty_agent) (start fs_empty))"
  by (simp add: printChunk_def chunk_empty_agent_def)

section \<open>The Agent Initializer\<close>

lemma run_readWalletData:
  "events (readWalletData w) s =
     (if files s WALLET_DATA_FILE = None then [ExistsSync WALLET_DATA_FILE]
      else case readFault w of
             None \<Rightarrow> [ExistsSync WALLET_DATA_FILE, ReadFileSync WALLET_DATA_FILE]
           | Some x \<Rightarrow> [ExistsSync WALLET_DATA_FILE, ReadFileSync WALLET_DATA_FILE,
                       ConsoleError [S ''Error reading wallet data:'', V x]])"
  "outcome (readWalletData w) s =
     Normal (if files s WALLET_DATA_FILE = None then None
             else case readFault w of None \<Rightarrow> files s WALLET_DATA_FILE | Some x \<Rightarrow> None)"
  "final (readWalletData w) s = s"
  by (auto simp: readWalletData_def split: option.splits)


lemma outcome_andThen_Normal:
  "outcome (andThen m f) s = Normal r \<longleftrightarrow>
     (\<exists>v. outcome m s = Normal v \<and> outcome (f v) (final m s) = Normal r)"
  by (simp split: completion.splits)

lemma outcome_rethrow_Normal:
  "outcome (tryCatch m (\<lambda>e. andThen (h e) (\<lambda>_. throw e))) s = Normal r \<longleftrightarrow> outcome m s = Normal r"
  by (simp split: completion.splits)

lemma initializeAgent_Normal:
  assumes "outcome (initializeAgent w) s = Normal r"
  shows "\<exists>d ag x.
    outcome (readWalletData w) s = Normal d \<and> newChatOpenAI w = None \<and>
    configureWithWallet w (makeConfig w d) = None \<and> agentKitFrom w = None \<and>
    getLangChainTools w = None \<and> createReactAgent w = Inr ag \<and>
    exportWallet w (makeConfig w d) = Inr x \<and> writeFault w = None \<and>
    r = (ag, \<lparr> thread_id = ''CDP AgentKit Chatbot Example!'' \<rparr>)"
  using assms unfolding initializeAgent_def outcome_rethrow_Normal
  by (auto simp del: outcome_andThen simp: outcome_andThen_Normal run_readWalletData(3)
      split: option.splits sum.splits)

lemma events_tryCatch_prefix: "\<exists>rest. events (tryCatch m h) s = events m s @ rest"
  by (simp split: completion.splits)

lemma events_initializeAgent_prefix:
  assumes "newChatOpenAI w = None" "outcome (readWalletData w) s = Normal d"
  shows "\<exists>rest. events (initializeAgent w) s =
           NewChatOpenAI ''gpt-4o-mini'' # events (readWalletData w) s
           @ ConfigureWithWallet (makeConfig w d) # rest"
proof -
  obtain body handler where i: "initializeAgent w = tryCatch body handler"
    and b: "body =
       andThen (call (NewChatOpenAI ''gpt-4o-mini'') (newChatOpenAI w))
       (\<lambda>_. andThen (readWalletData w)
       (\<lambda>walletDataStr. andThen (call (ConfigureWithWallet (makeConfig w walletDataStr))
                                   (configureWithWallet w (makeConfig w walletDataStr)))
       (\<lambda>_. andThen (call AgentKitFrom (agentKitFrom w))
       (\<lambda>_. andThen (call GetLangChainTools (getLangChainTools w))
       (\<lambda>_. andThen (callResult CreateReactAgent (createReactAgent w))
       (\<lambda>ag. andThen (callResult ExportWallet (exportWallet w (makeConfig w walletDataStr)))
       (\<lambda>exportedWallet.
             andThen (writeFileSync w WALLET_DATA_FILE (JSON_stringify w exportedWallet))
       (\<lambda>_. pure (ag, \<lparr> thread_id = ''CDP AgentKit Chatbot Example!'' \<rparr>)))))))))"
    by (simp add: initializeAgent_def)
  have "\<exists>rest. events body s =
          NewChatOpenAI ''gpt-4o-mini'' # events (readWalletData w) s
          @ ConfigureWithWallet (makeConfig w d) # rest"
    unfolding b using assms
    by (cases "configureWithWallet w (makeConfig w d)") simp_all
  then show ?thesis
    using events_tryCatch_prefix [of body handler s] unfolding i by auto
qed

text \<open>
  C7. The step that loads the snapshot always returns: it never throws, never ends the
  process and leaves the file system as it was. When the file is absent it only checks
  for it and yields no wallet data. When the file is present and the read throws, the
  failure is logged and the step yields no wallet data. In both cases initialization goes
  on to configure the wallet provider with a configuration that has no snapshot.
\<close>

theorem readWalletData_never_throws:
  "(\<exists>v. outcome (readWalletData w) s = Normal v)
   \<and> final (readWalletData w) s = s
   \<and> (files s WALLET_DATA_FILE = None \<longrightarrow>
        events (readWalletData w) s = [ExistsSync WALLET_DATA_FILE]
        \<and> outcome (readWalletData w) s = Normal None)
   \<and> (files s WALLET_DATA_FILE \<noteq> None \<and> readFault w = Some x \<longrightarrow>
        events (readWalletData w) s =
          [ExistsSync WALLET_DATA_FILE, ReadFileSync WALLET_DATA_FILE,
           ConsoleError [S ''Error reading wallet data:'', V x]]
        \<and> outcome (readWalletData w) s = Normal None)
   \<and> (newChatOpenAI w = None \<and> outcome (readWalletData w) s = Normal None \<longrightarrow>
        cdpWalletData (makeConfig w None) = None
        \<and> (\<exists>rest. events (initializeAgent w) s =
              NewChatOpenAI ''gpt-4o-mini'' # events (readWalletData w) s
              @ ConfigureWithWallet (makeConfig w None) # rest))"
proof -
  have "cdpWalletData (makeConfig w None) = None"
    by (simp add: makeConfig_def falsy_def)
  moreover have "files s WALLET_DATA_FILE \<noteq> None \<and> readFault w = Some x \<longrightarrow>
        events (readWalletData w) s =
          [ExistsSync WALLET_DATA_FILE, ReadFileSync WALLET_DATA_FILE,
           ConsoleError [S ''Error reading wallet data:'', V x]]
        \<and> outcome (readWalletData w) s = Normal None"
    by (simp add: run_readWalletData)
  ultimately show ?thesis
    using events_initializeAgent_prefix [of w s None]
    by (simp add: run_readWalletData(2,3)) (simp add: run_readWalletData(1))
qed

theorem readWalletData_never_throws_witness:
  "events (readWalletData world_unreadable) (start fs_old) =
     [ExistsSync WALLET_DATA_FILE, ReadFileSync WALLET_DATA_FILE,
      ConsoleError [S ''Error reading wallet data:'', V (ErrorObj ''EACCES: permission denied'')]]
   \<and> outcome (readWalletData world_unreadable) (start fs_old) = Normal None
   \<and> events (readWalletData world_ok) (start fs_empty) = [ExistsSync WALLET_DATA_FILE]
   \<and> outcome (readWalletData world_ok) (start fs_empty) = Normal None
   \<and> (\<exists>rest. events (initializeAgent world_unreadable) (start fs_old) =
         NewChatOpenAI ''gpt-4o-mini'' # events (readWalletData world_unreadable) (start fs_old)
         @ ConfigureWithWallet (makeConfig world_unreadable None) # rest)"
proof -
  have present: "files (start fs_old) WALLET_DATA_FILE \<noteq> None"
    and absent: "files (start fs_empty) WALLET_DATA_FILE = None"
    by (simp_all add: start_def fs_old_def fs_empty_def WALLET_DATA_FILE_def)
  have fault: "readFault world_unreadable = Some (ErrorObj ''EACCES: permission denied'')"
    and llm: "newChatOpenAI world_unreadable = None"
    by (simp_all add: world_unreadable_def world_ok_def)
  show ?thesis
    using
      readWalletData_never_throws [of world_unreadable "start fs_old"
        "ErrorObj ''EACCES: permission denied''"]
      readWalletData_never_throws [of world_ok "start fs_empty"]
      present absent fault llm
    by auto
qed

text \<open>
  C6. Whenever \<^verbatim>\<open>initializeAgent\<close> returns, whatever the snapshot file held before, the
  wallet provider that was configured has exported a state, the last thing the function
  did was to write the JSON serialization of that state to the snapshot file, and the
  file now exists with exactly that content.
\<close>

theorem initializeAgent_writes_snapshot:
  assumes "outcome (initializeAgent w) s = Normal r"
  shows "\<exists>c x. ConfigureWithWallet c \<in> set (events (initializeAgent w) s)
           \<and> exportWallet w c = Inr x
           \<and> last (events (initializeAgent w) s) =
               WriteFileSync WALLET_DATA_FILE (JSON_stringify w x)
           \<and> files (final (initializeAgent w) s) WALLET_DATA_FILE = Some (JSON_stringify w x)"
proof -
  from initializeAgent_Normal [OF assms] obtain d ag x where h:
    "outcome (readWalletData w) s = Normal d" "newChatOpenAI w = None"
    "configureWithWallet w (makeConfig w d) = None" "agentKitFrom w = None"
    "getLangChainTools w = None" "createReactAgent w = Inr ag"
    "exportWallet w (makeConfig w d) = Inr x" "writeFault w = None"
    by blast
  have "final (readWalletData w) s = s"
    by (simp add: run_readWalletData)
  with h have
    "events (initializeAgent w) s =
       NewChatOpenAI ''gpt-4o-mini'' # events (readWalletData w) s
       @ [ConfigureWithWallet (makeConfig w d), AgentKitFrom, GetLangChainTools,
          CreateReactAgent, ExportWallet,
          WriteFileSync WALLET_DATA_FILE (JSON_stringify w x)]"
    "files (final (initializeAgent w) s) WALLET_DATA_FILE = Some (JSON_stringify w x)"
    by (simp_all add: initializeAgent_def)
  with h show ?thesis
    by (intro exI [of _ "makeConfig w d"] exI [of _ x]) simp
qed

theorem initializeAgent_writes_snapshot_witness:
  "outcome (initializeAgent world_ok) (start fs_old) = Normal (agent_hi, config0)
   \<and> files (start fs_old) ''wallet_data.txt'' = Some ''old''
   \<and> files (final (initializeAgent world_ok) (start fs_old)) ''wallet_data.txt'' = Some ''{W}''"
proof -
  have h: "outcome (initializeAgent world_ok) (start fs_old) = Normal (agent_hi, config0)"
    by (simp add: initializeAgent_def run_readWalletData world_ok_def config0_def)
  from initializeAgent_writes_snapshot [OF h] show ?thesis
    using h by (auto simp: world_ok_def start_def fs_old_def WALLET_DATA_FILE_def)
qed

section \<open>The events of each part\<close>

lemma events_mono_andThen:
  assumes "set (events m s) \<subseteq> A" "\<And>v s'. set (events (f v) s') \<subseteq> A"
  shows "set (events (andThen m f) s) \<subseteq> A"
  using assms by (auto split: completion.splits)

lemma events_mono_tryCatch:
  assumes "set (events m s) \<subseteq> A" "\<And>e s'. set (events (h e) s') \<subseteq> A"
  shows "set (events (tryCatch m h) s) \<subseteq> A"
  using assms by (auto split: completion.splits)

lemma events_mono_if:
  assumes "b \<Longrightarrow> set (events m s) \<subseteq> A" "\<not> b \<Longrightarrow> set (events m' s) \<subseteq> A"
  shows "set (events (if b then m else m') s) \<subseteq> A"
  using assms by simp

lemma readWalletData_events: "set (events (readWalletData w) s) \<subseteq> initEvents w"
  by (auto simp: run_readWalletData initEvents_def split: option.splits)

lemma initializeAgent_events: "set (events (initializeAgent w) s) \<subseteq> initEvents w"
  unfolding initializeAgent_def
  by (intro events_mono_tryCatch events_mono_andThen readWalletData_events)
    (auto simp: initEvents_def)

lemma outcome_printChunk_not [simp]:
  "outcome (printChunk c) s \<noteq> Exit n" "outcome (printChunk c) s \<noteq> Suspended"
  by (simp_all add: printChunk_def split: option.splits list.splits)

lemma outcome_forAwait_not [simp]:
  "outcome (forAwait cs ending) s \<noteq> Exit n" "outcome (forAwait cs ending) s \<noteq> Suspended"
  by (induction cs ending rule: forAwait.induct) (simp_all split: completion.splits)

lemma forAwait_chatEvents: "set (events (forAwait cs ending) s) \<subseteq> chatEvents cfg"
  using forAwait_ConsoleLog [of cs ending s] by (auto simp: chatEvents_def)

lemma chatLoop_events: "set (events (chatLoop ag cfg ls) s) \<subseteq> chatEvents cfg"
proof (induction ls arbitrary: s)
  case Nil
  show ?case by (simp add: chatEvents_def)
next
  case (Cons l ls)
  show ?case
    unfolding chatLoop.simps
    by (intro events_mono_andThen events_mono_if forAwait_chatEvents Cons)
      (simp_all add: chatEvents_def)
qed

lemma chatLoop_not_Exit [simp]: "outcome (chatLoop ag cfg ls) s \<noteq> Exit n"
  by (induction ls arbitrary: s) (simp_all split: completion.splits sum.splits)

lemma chatSession_events: "set (events (chatSession ag cfg ls) s) \<subseteq> chatEvents cfg"
  unfolding chatSession_def
  by (intro events_mono_andThen forAwait_chatEvents chatLoop_events) (simp_all add: chatEvents_def)

lemma chatSession_not_Exit [simp]: "outcome (chatSession ag cfg ls) s \<noteq> Exit n"
  by (simp add: chatSession_def split: completion.splits sum.splits)

lemma run_runChatMode:
  "events (runChatMode ag cfg ls) s =
     ConsoleLog [S ''Running in chat mode... Type 'exit' to quit''] # CreateInterface
     # events (chatSession ag cfg ls) s @ epilogue (outcome (chatSession ag cfg ls) s)"
  "outcome (runChatMode ag cfg ls) s =
     (case outcome (chatSession ag cfg ls) s of
        Normal _ \<Rightarrow> Normal () | Throw _ \<Rightarrow> Exit 1 | Exit n \<Rightarrow> Exit n | Suspended \<Rightarrow> Suspended)"
  by (auto simp: runChatMode_def epilogue_def split: completion.splits thrown.splits)


lemma fileAccesses_initializeAgent:
  "\<exists>ws. fileAccesses WALLET_DATA_FILE (events (initializeAgent w) s) =
          (if newChatOpenAI w = None then
             ExistsSync WALLET_DATA_FILE
             # (if files s WALLET_DATA_FILE = None then [] else [ReadFileSync WALLET_DATA_FILE])
             @ ws
           else [])
        \<and> (ws = [] \<or> (\<exists>d. ws = [WriteFileSync WALLET_DATA_FILE d]))
        \<and> ((\<exists>r. outcome (initializeAgent w) s = Normal r) \<longrightarrow> ws \<noteq> [])"
proof -
  obtain d where d: "outcome (readWalletData w) s = Normal d"
    by (simp add: run_readWalletData)
  have rwd: "filter (touches WALLET_DATA_FILE) (events (readWalletData w) s) =
       ExistsSync WALLET_DATA_FILE
       # (if files s WALLET_DATA_FILE = None then [] else [ReadFileSync WALLET_DATA_FILE])"
    by (simp add: run_readWalletData split: option.splits)
  show ?thesis
    using d rwd
    apply (simp add: initializeAgent_def run_readWalletData(3) fileAccesses_def)
    apply (cases "newChatOpenAI w"; simp)
    apply (cases "configureWithWallet w (makeConfig w d)"; simp)
    apply (cases "agentKitFrom w"; simp)
    apply (cases "getLangChainTools w"; simp)
    apply (cases "createReactAgent w"; simp)
    apply (cases "exportWallet w (makeConfig w d)"; simp)
    apply (cases "writeFault w"; simp)
    apply blast
    done
qed



lemma outcome_runChatMode_not_Throw [simp]: "outcome (runChatMode ag cfg ls) s \<noteq> Throw x"
  by (simp add: run_runChatMode split: completion.splits)

lemma run_main:
  "events (main w) s =
     ConsoleLog [S ''Initializing agent...''] # events (initializeAgent w) s
     @ (case outcome (initializeAgent w) s of
          Normal r \<Rightarrow>
            ConsoleLog [S ''Agent initialized successfully.'']
            # ConsoleLog [S ''Starting chat mode...'']
            # events (runChatMode (fst r) (snd r) (stdin w)) (final (initializeAgent w) s)
        | Throw e \<Rightarrow> mainHandlerEvents e
        | _ \<Rightarrow> [])"
  "outcome (main w) s =
     (case outcome (initializeAgent w) s of
        Normal r \<Rightarrow> outcome (runChatMode (fst r) (snd r) (stdin w)) (final (initializeAgent w) s)
      | Throw e \<Rightarrow> Exit 1
      | Exit n \<Rightarrow> Exit n
      | Suspended \<Rightarrow> Suspended)"
  by (auto simp: main_def mainHandlerEvents_def split: completion.splits thrown.splits)

lemma final_validateEnvironment [simp]: "final (validateEnvironment w) s = s"
  by (simp add: validateEnvironment_def)

lemma run_validateEnvironment:
  "events (validateEnvironment w) s =
     (if missingVars w = [] then
        (if falsy (env w ''NETWORK_ID'') then
           [ConsoleWarn [S ''Warning: NETWORK_ID not set, defaulting to base-sepolia testnet'']]
         else [])
      else ConsoleError [S ''Error: Required environment variables are not set'']
           # map (\<lambda>v. ConsoleError [S (placeholder v)]) (missingVars w) @ [ProcessExit 1])"
  "outcome (validateEnvironment w) s = (if missingVars w = [] then Normal () else Exit 1)"
  by (simp_all add: validateEnvironment_def)

lemma run_chatbot:
  "events (chatbot w) s =
     events (validateEnvironment w) s
     @ (if missingVars w = [] \<and> isMain w then
          ConsoleLog [S ''Starting chatbot...''] # events (main w) s
        else [])"
  "outcome (chatbot w) s =
     (if missingVars w = [] then (if isMain w then outcome (main w) s else Normal ())
      else Exit 1)"
  by (simp_all add: chatbot_def run_validateEnvironment(2))


section \<open>Lines read at the prompt\<close>



lemma LineRead_notin_forAwait [simp]: "LineRead l \<notin> set (events (forAwait cs ending) s)"
  using forAwait_ConsoleLog [of cs ending s] by auto

lemma chatLoop_exit_line:
  assumes "LineRead l \<in> set (events (chatLoop ag cfg ls) s)" "isExit l"
  shows "\<exists>pre. events (chatLoop ag cfg ls) s = pre @ [LineRead l, ConsoleLog [S ''Exiting...'']]
           \<and> LineRead l \<notin> set pre \<and> outcome (chatLoop ag cfg ls) s = Normal ()"
  using assms
proof (induction ls arbitrary: s)
  case Nil
  then show ?case by simp
next
  case (Cons x ls)
  show ?case
  proof (cases "isExit x")
    case True
    with Cons.prems show ?thesis by auto
  next
    case False
    with Cons.prems have ne: "x \<noteq> l" by auto
    let ?s = "s\<lparr>sent := sent s @ [x]\<rparr>"
    from False Cons.prems obtain cs ending where
      st: "stream ag (sent s) x = Inr (cs, ending)"
      and fa: "outcome (forAwait cs ending) ?s = Normal ()"
      and inn: "LineRead l \<in> set (events (chatLoop ag cfg ls) ?s)"
      using ne by (auto split: sum.splits completion.splits)
    from Cons.IH [OF inn Cons.prems(2)] obtain pre where
      pre: "events (chatLoop ag cfg ls) ?s = pre @ [LineRead l, ConsoleLog [S ''Exiting...'']]"
        "LineRead l \<notin> set pre" "outcome (chatLoop ag cfg ls) ?s = Normal ()"
      by blast
    show ?thesis
      using False st fa pre ne
      by (intro exI [of _ "Question ''> '' # LineRead x # AgentStream x (thread_id cfg)
            # events (forAwait cs ending) ?s @ pre"]) simp
  qed
qed

lemma not_isExit_initialPrompt [simp]: "\<not> isExit initialPrompt"
  by (simp add: isExit_def initialPrompt_def toLowerCase_def)

lemma chatLoop_forwarded_not_exit:
  "AgentStream m t \<in> set (events (chatLoop ag cfg ls) s) \<Longrightarrow> \<not> isExit m"
proof (induction ls arbitrary: s)
  case Nil
  then show ?case by simp
next
  case (Cons x ls)
  show ?case
  proof (cases "isExit x")
    case True
    with Cons.prems show ?thesis by simp
  next
    case False
    with Cons.prems Cons.IH [of "s\<lparr>sent := sent s @ [x]\<rparr>"]
      forAwait_ConsoleLog [of "fst r" "snd r" "s\<lparr>sent := sent s @ [x]\<rparr>" for r]
    show ?thesis
      by (auto split: sum.splits completion.splits)
  qed
qed

lemma RlClose_notin_chatSession [simp]: "RlClose \<notin> set (events (chatSession ag cfg ls) s)"
  using chatSession_events [of ag cfg ls s] by (auto simp: chatEvents_def)

lemma chatSession_exit_line:
  assumes "LineRead l \<in> set (events (chatSession ag cfg ls) s)" "isExit l"
  shows "\<exists>pre. events (chatSession ag cfg ls) s = pre @ [LineRead l, ConsoleLog [S ''Exiting...'']]
           \<and> LineRead l \<notin> set pre \<and> outcome (chatSession ag cfg ls) s = Normal ()"
proof -
  let ?s = "s\<lparr>sent := sent s @ [initialPrompt]\<rparr>"
  from assms(1) obtain cs ending where
    st: "stream ag (sent s) initialPrompt = Inr (cs, ending)"
    and fa: "outcome (forAwait cs ending) ?s = Normal ()"
    and inn: "LineRead l \<in> set (events (chatLoop ag cfg ls) ?s)"
    by (auto simp: chatSession_def split: sum.splits completion.splits)
  from chatLoop_exit_line [OF inn assms(2)] obtain pre where
    pre: "events (chatLoop ag cfg ls) ?s = pre @ [LineRead l, ConsoleLog [S ''Exiting...'']]"
      "LineRead l \<notin> set pre" "outcome (chatLoop ag cfg ls) ?s = Normal ()"
    by blast
  show ?thesis
    using st fa pre
    by (intro exI [of _ "ConsoleLog [S (''\<newline>Prompt: '' @ initialPrompt)]
          # AgentStream initialPrompt (thread_id cfg) # events (forAwait cs ending) ?s @ pre"])
      (simp add: chatSession_def)
qed

lemma chatSession_forwarded_not_exit:
  "AgentStream m t \<in> set (events (chatSession ag cfg ls) s) \<Longrightarrow> \<not> isExit m"
  using chatLoop_forwarded_not_exit [of m t ag cfg ls "s\<lparr>sent := sent s @ [initialPrompt]\<rparr>"]
    forAwait_ConsoleLog [of "fst r" "snd r" "s\<lparr>sent := sent s @ [initialPrompt]\<rparr>" for r]
  by (auto simp: chatSession_def split: sum.splits completion.splits)

lemma epilogue_other [simp]:
  "LineRead l \<notin> set (epilogue r)" "AgentStream m t \<notin> set (epilogue r)"
  "Question q \<notin> set (epilogue r)"
  by (simp_all add: epilogue_def split: completion.splits thrown.splits)

lemma runChatMode_exit_line:
  assumes "LineRead l \<in> set (events (runChatMode ag cfg ls) s)" "isExit l"
  shows "\<exists>pre. events (runChatMode ag cfg ls) s =
             pre @ [LineRead l, ConsoleLog [S ''Exiting...''], RlClose]
           \<and> LineRead l \<notin> set pre \<and> RlClose \<notin> set pre
           \<and> (\<forall>t. AgentStream l t \<notin> set (events (runChatMode ag cfg ls) s))
           \<and> outcome (runChatMode ag cfg ls) s = Normal ()"
proof -
  from assms(1) have inn: "LineRead l \<in> set (events (chatSession ag cfg ls) s)"
    by (simp add: run_runChatMode)
  from chatSession_exit_line [OF inn assms(2)] obtain pre where
    pre: "events (chatSession ag cfg ls) s = pre @ [LineRead l, ConsoleLog [S ''Exiting...'']]"
      "LineRead l \<notin> set pre" "outcome (chatSession ag cfg ls) s = Normal ()"
    by blast
  have rl: "RlClose \<notin> set pre"
    using RlClose_notin_chatSession [of ag cfg ls s] pre(1) by simp
  have fw: "AgentStream l t \<notin> set (events (runChatMode ag cfg ls) s)" for t
    using chatSession_forwarded_not_exit [of l t ag cfg ls s] assms(2)
    by (auto simp: run_runChatMode)
  show ?thesis
    using pre rl fw
    by (intro exI [of _ "ConsoleLog [S ''Running in chat mode... Type 'exit' to quit'']
          # CreateInterface # pre"])
      (simp add: run_runChatMode epilogue_def)
qed


lemma mainHandlerEvents_startup: "set (mainHandlerEvents e) \<subseteq> startupEvents w"
  by (auto simp: mainHandlerEvents_def startupEvents_def initEvents_def split: thrown.splits)

lemma validateEnvironment_startup: "set (events (validateEnvironment w) s) \<subseteq> startupEvents w"
  by (auto simp: run_validateEnvironment startupEvents_def initEvents_def)

lemma initializeAgent_startup: "set (events (initializeAgent w) s) \<subseteq> startupEvents w"
  using initializeAgent_events [of w s] by (auto simp: startupEvents_def)

lemma chatbot_cases:
  "(\<exists>P ag cfg s'. events (chatbot w) s = P @ events (runChatMode ag cfg (stdin w)) s'
       \<and> outcome (chatbot w) s = outcome (runChatMode ag cfg (stdin w)) s'
       \<and> set P \<subseteq> startupEvents w)
   \<or> set (events (chatbot w) s) \<subseteq> startupEvents w"
proof (cases "missingVars w = [] \<and> isMain w")
  case False
  then show ?thesis
    using validateEnvironment_startup [of w s] by (auto simp: run_chatbot)
next
  case True
  show ?thesis
  proof (cases "outcome (initializeAgent w) s")
    case (Normal r)
    let ?P = "events (validateEnvironment w) s
       @ ConsoleLog [S ''Starting chatbot...''] # ConsoleLog [S ''Initializing agent...'']
       # events (initializeAgent w) s
       @ [ConsoleLog [S ''Agent initialized successfully.''],
          ConsoleLog [S ''Starting chat mode...'']]"
    have "events (chatbot w) s =
        ?P @ events (runChatMode (fst r) (snd r) (stdin w)) (final (initializeAgent w) s)"
      using True Normal by (simp add: run_chatbot run_main)
    moreover have "outcome (chatbot w) s =
        outcome (runChatMode (fst r) (snd r) (stdin w)) (final (initializeAgent w) s)"
      using True Normal by (simp add: run_chatbot run_main)
    moreover have "set ?P \<subseteq> startupEvents w"
      using validateEnvironment_startup [of w s] initializeAgent_startup [of w s]
      by (auto simp: startupEvents_def)
    ultimately show ?thesis by blast
  next
    case (Throw e)
    then show ?thesis
      using True validateEnvironment_startup [of w s] initializeAgent_startup [of w s]
        mainHandlerEvents_startup [of e w]
      by (auto simp: run_chatbot run_main startupEvents_def)
  next
    case (Exit n)
    then show ?thesis
      using True validateEnvironment_startup [of w s] initializeAgent_startup [of w s]
      by (auto simp: run_chatbot run_main startupEvents_def)
  next
    case Suspended
    then show ?thesis
      using True validateEnvironment_startup [of w s] initializeAgent_startup [of w s]
      by (auto simp: run_chatbot run_main startupEvents_def)
  qed
qed

lemma startup_not_chat:
  assumes "set P \<subseteq> startupEvents w"
  shows "LineRead l \<notin> set P" "RlClose \<notin> set P" "AgentStream m t \<notin> set P"
    "Question q \<notin> set P" "CreateInterface \<notin> set P"
  using assms by (auto simp: startupEvents_def initEvents_def)

section \<open>Concrete runs, evaluated\<close>

lemmas concrete_defs =
  world_ok_def world_none_def world_partial_def world_trailing_def
  env_ok_def env_none_def env_partial_def
  agent_hi_def agent_boom_def config0_def start_def fs_empty_def fs_old_def
  WALLET_DATA_FILE_def requiredVars_def missingVars_def falsy_def placeholder_def
  toLowerCase_def toLowerCase_char_def isExit_def initialPrompt_def separator_def
  makeConfig_def

lemmas run_defs =
  run_chatbot run_main run_runChatMode run_validateEnvironment run_readWalletData
  initializeAgent_def chatSession_def printChunk_def epilogue_def mainHandlerEvents_def

lemma world_ok_run:
  "events (chatbot world_ok) (start fs_old) =
     [ConsoleWarn [S ''Warning: NETWORK_ID not set, defaulting to base-sepolia testnet''],
      ConsoleLog [S ''Starting chatbot...''],
      ConsoleLog [S ''Initializing agent...''],
      NewChatOpenAI ''gpt-4o-mini'',
      ExistsSync ''wallet_data.txt'',
      ReadFileSync ''wallet_data.txt'',
      ConfigureWithWallet
        \<lparr> apiKeyName = Some ''name'', apiKeyPrivateKey = Some ''key'',
          cdpWalletData = Some ''old'', networkId = ''base-sepolia'' \<rparr>,
      AgentKitFrom, GetLangChainTools, CreateReactAgent, ExportWallet,
      WriteFileSync ''wallet_data.txt'' ''{W}'',
      ConsoleLog [S ''Agent initialized successfully.''],
      ConsoleLog [S ''Starting chat mode...''],
      ConsoleLog [S ''Running in chat mode... Type 'exit' to quit''],
      CreateInterface,
      ConsoleLog [S ''\<newline>Prompt: What game can the user play against the agent?''],
      AgentStream ''What game can the user play against the agent?''
        ''CDP AgentKit Chatbot Example!'',
      ConsoleLog [S ''hi''], ConsoleLog [S ''-------------------''],
      Question ''> '', LineRead ''hello'',
      AgentStream ''hello'' ''CDP AgentKit Chatbot Example!'',
      ConsoleLog [S ''hi''], ConsoleLog [S ''-------------------''],
      Question ''> '', LineRead ''EXIT'', ConsoleLog [S ''Exiting...''],
      RlClose]"
  "outcome (chatbot world_ok) (start fs_old) = Normal ()"
  by (simp_all add: run_defs concrete_defs)

lemma world_none_run:
  "events (chatbot world_none) (start fs_empty) =
     [ConsoleError [S ''Error: Required environment variables are not set''],
      ConsoleError [S ''OPENAI_API_KEY=your_openai_api_key_here''],
      ConsoleError [S ''CDP_API_KEY_NAME=your_cdp_api_key_name_here''],
      ConsoleError [S ''CDP_API_KEY_PRIVATE_KEY=your_cdp_api_key_private_key_here''],
      ProcessExit 1]"
  "outcome (chatbot world_none) (start fs_empty) = Exit 1"
  by (simp_all add: run_defs concrete_defs)

lemma world_trailing_run:
  "events (chatbot world_trailing) (start fs_empty) =
     [ConsoleWarn [S ''Warning: NETWORK_ID not set, defaulting to base-sepolia testnet''],
      ConsoleLog [S ''Starting chatbot...''],
      ConsoleLog [S ''Initializing agent...''],
      NewChatOpenAI ''gpt-4o-mini'',
      ExistsSync ''wallet_data.txt'',
      ConfigureWithWallet
        \<lparr> apiKeyName = Some ''name'', apiKeyPrivateKey = Some ''key'',
          cdpWalletData = None, networkId = ''base-sepolia'' \<rparr>,
      AgentKitFrom, GetLangChainTools, CreateReactAgent, ExportWallet,
      WriteFileSync ''wallet_data.txt'' ''{W}'',
      ConsoleLog [S ''Agent initialized successfully.''],
      ConsoleLog [S ''Starting chat mode...''],
      ConsoleLog [S ''Running in chat mode... Type 'exit' to quit''],
      CreateInterface,
      ConsoleLog [S ''\<newline>Prompt: What game can the user play against the agent?''],
      AgentStream ''What game can the user play against the agent?''
        ''CDP AgentKit Chatbot Example!'',
      ConsoleLog [S ''hi''], ConsoleLog [S ''-------------------''],
      Question ''> '', LineRead ''exit '',
      AgentStream ''exit '' ''CDP AgentKit Chatbot Example!'',
      ConsoleLog [S ''hi''], ConsoleLog [S ''-------------------''],
      Question ''> '', LineRead '' exit'',
      AgentStream '' exit'' ''CDP AgentKit Chatbot Example!'',
      ConsoleLog [S ''hi''], ConsoleLog [S ''-------------------''],
      Question ''> '', LineRead ''quit'',
      AgentStream ''quit'' ''CDP AgentKit Chatbot Example!'',
      ConsoleLog [S ''hi''], ConsoleLog [S ''-------------------''],
      Question ''> '']"
  "outcome (chatbot world_trailing) (start fs_empty) = Suspended"
  by (simp_all add: run_defs concrete_defs)


section \<open>The exit command\<close>

text \<open>
  C3. Whenever a line read at the prompt is \<^verbatim>\<open>exit\<close> in any letter case, the run ends there:
  after the line is read the script prints \<^verbatim>\<open>Exiting...\<close>, closes the input reader, and
  nothing else happens. The reader is closed at no earlier point, the line is never
  forwarded to the agent, the script runs to its end and the process status is 0.
\<close>

theorem exit_line_ends_chat:
  assumes "LineRead l \<in> set (events (chatbot w) s)" "isExit l"
  shows "\<exists>pre. events (chatbot w) s = pre @ [LineRead l, ConsoleLog [S ''Exiting...''], RlClose]
           \<and> LineRead l \<notin> set pre \<and> RlClose \<notin> set pre
           \<and> (\<forall>t. AgentStream l t \<notin> set (events (chatbot w) s))
           \<and> outcome (chatbot w) s = Normal ()
           \<and> exitStatus (outcome (chatbot w) s) = Some 0"
proof -
  from chatbot_cases [of w s] assms(1) obtain P ag cfg s' where
    c: "events (chatbot w) s = P @ events (runChatMode ag cfg (stdin w)) s'"
      "outcome (chatbot w) s = outcome (runChatMode ag cfg (stdin w)) s'"
      "set P \<subseteq> startupEvents w"
    using startup_not_chat(1) [of "events (chatbot w) s" w l] by blast
  from c(3) have P: "LineRead l \<notin> set P" "RlClose \<notin> set P" "\<And>t. AgentStream l t \<notin> set P"
    by (rule startup_not_chat)+
  with c(1) assms(1) have "LineRead l \<in> set (events (runChatMode ag cfg (stdin w)) s')"
    by simp
  from runChatMode_exit_line [OF this assms(2)] obtain pre where
    pre: "events (runChatMode ag cfg (stdin w)) s' =
            pre @ [LineRead l, ConsoleLog [S ''Exiting...''], RlClose]"
      "LineRead l \<notin> set pre" "RlClose \<notin> set pre"
      "\<forall>t. AgentStream l t \<notin> set (events (runChatMode ag cfg (stdin w)) s')"
      "outcome (runChatMode ag cfg (stdin w)) s' = Normal ()"
    by blast
  show ?thesis
    using c(1,2) P pre
    by (intro exI [of _ "P @ pre"]) (simp add: exitStatus_def)
qed

theorem exit_line_ends_chat_witness:
  "LineRead ''EXIT'' \<in> set (events (chatbot world_ok) (start fs_old))
   \<and> isExit ''EXIT''
   \<and> last (events (chatbot world_ok) (start fs_old)) = RlClose
   \<and> exitStatus (outcome (chatbot world_ok) (start fs_old)) = Some 0"
proof -
  have a: "LineRead ''EXIT'' \<in> set (events (chatbot world_ok) (start fs_old))"
    by (simp add: world_ok_run)
  have b: "isExit ''EXIT''"
    by (simp add: isExit_def toLowerCase_def toLowerCase_char_def)
  from exit_line_ends_chat [OF a b] show ?thesis
    using a b by auto
qed

section \<open>The wallet snapshot file\<close>

lemma runChatMode_events:
  "set (events (runChatMode ag cfg ls) s)
     \<subseteq> chatEvents cfg \<union> range ConsoleError \<union> {CreateInterface, RlClose, ProcessExit 1}"
  using chatSession_events [of ag cfg ls s]
  by (auto simp: run_runChatMode epilogue_def chatEvents_def split: completion.splits thrown.splits)

lemma fileAccesses_Nil:
  assumes "set evs \<subseteq> A" "\<And>e. e \<in> A \<Longrightarrow> \<not> touches p e"
  shows "fileAccesses p evs = []"
  using assms by (auto simp: fileAccesses_def filter_empty_conv)

lemma fileAccesses_append [simp]:
  "fileAccesses p (xs @ ys) = fileAccesses p xs @ fileAccesses p ys"
  "fileAccesses p (x # xs) = (if touches p x then x # fileAccesses p xs else fileAccesses p xs)"
  "fileAccesses p [] = []"
  by (simp_all add: fileAccesses_def)

lemma fileAccesses_runChatMode [simp]: "fileAccesses p (events (runChatMode ag cfg ls) s) = []"
  by (rule fileAccesses_Nil [OF runChatMode_events]) (auto simp: chatEvents_def)

lemma fileAccesses_validateEnvironment [simp]:
  "fileAccesses p (events (validateEnvironment w) s) = []"
  by (rule fileAccesses_Nil [of _ "range ConsoleError \<union> range ConsoleWarn \<union> {ProcessExit 1}"])
    (auto simp: run_validateEnvironment)

lemma fileAccesses_mainHandlerEvents [simp]: "fileAccesses p (mainHandlerEvents e) = []"
  by (simp add: mainHandlerEvents_def split: thrown.splits)

lemma fileAccesses_chatbot:
  "fileAccesses p (events (chatbot w) s) =
     (if missingVars w = [] \<and> isMain w then fileAccesses p (events (initializeAgent w) s) else [])"
  by (simp add: run_chatbot run_main split: completion.splits)

text \<open>
  C2, as amended. In one run the snapshot file is accessed only by \<^verbatim>\<open>initializeAgent\<close>, at
  most three times and in this order: one existence check; one read, made exactly when
  the file exists; and at most one write, which is the last access and is always made
  when initialization succeeds. Validation and the chat never access the file, and no
  access is made at all when a required variable is missing, when the file is not the
  main module, or when the language-model client cannot be built.
\<close>

theorem wallet_file_accesses:
  "(\<exists>ws. fileAccesses WALLET_DATA_FILE (events (chatbot w) s) =
           (if (\<forall>v \<in> set requiredVars. env w v \<noteq> None \<and> env w v \<noteq> Some [])
               \<and> isMain w \<and> newChatOpenAI w = None
            then ExistsSync WALLET_DATA_FILE
                 # (if files s WALLET_DATA_FILE = None then []
                    else [ReadFileSync WALLET_DATA_FILE])
                 @ ws
            else [])
         \<and> (ws = [] \<or> (\<exists>d. ws = [WriteFileSync WALLET_DATA_FILE d]))
         \<and> ((\<exists>r. outcome (initializeAgent w) s = Normal r) \<longrightarrow> ws \<noteq> []))
   \<and> fileAccesses WALLET_DATA_FILE (events (validateEnvironment w) s) = []
   \<and> fileAccesses WALLET_DATA_FILE (events (runChatMode ag cfg ls) s') = []"
proof -
  have m: "missingVars w = [] \<longleftrightarrow>
      (\<forall>v \<in> set requiredVars. env w v \<noteq> None \<and> env w v \<noteq> Some [])"
    by (simp add: missingVars_Nil falsy_iff)
  from fileAccesses_initializeAgent [of w s] obtain ws where
    ws: "fileAccesses WALLET_DATA_FILE (events (initializeAgent w) s) =
          (if newChatOpenAI w = None then
             ExistsSync WALLET_DATA_FILE
             # (if files s WALLET_DATA_FILE = None then [] else [ReadFileSync WALLET_DATA_FILE])
             @ ws
           else [])"
      "ws = [] \<or> (\<exists>d. ws = [WriteFileSync WALLET_DATA_FILE d])"
      "(\<exists>r. outcome (initializeAgent w) s = Normal r) \<longrightarrow> ws \<noteq> []"
    by blast
  have "fileAccesses WALLET_DATA_FILE (events (chatbot w) s) =
           (if (\<forall>v \<in> set requiredVars. env w v \<noteq> None \<and> env w v \<noteq> Some [])
               \<and> isMain w \<and> newChatOpenAI w = None
            then ExistsSync WALLET_DATA_FILE
                 # (if files s WALLET_DATA_FILE = None then []
                    else [ReadFileSync WALLET_DATA_FILE])
                 @ ws
            else [])"
    unfolding fileAccesses_chatbot ws(1) m by simp
  with ws(2,3) show ?thesis by auto
qed

theorem wallet_file_accesses_witness:
  "fileAccesses WALLET_DATA_FILE (events (chatbot world_trailing) (start fs_empty)) =
     [ExistsSync WALLET_DATA_FILE, WriteFileSync WALLET_DATA_FILE ''{W}'']"
  using wallet_file_accesses [of world_trailing "start fs_empty"]
  by (simp add: world_trailing_run) (simp add: WALLET_DATA_FILE_def)

text \<open>
  C2 as stated fails: with valid credentials and an existing snapshot, the file is
  checked, then read, then written.
\<close>

theorem wallet_file_is_read_counterexample:
  "fileAccesses WALLET_DATA_FILE (events (chatbot world_ok) (start fs_old)) =
     [ExistsSync WALLET_DATA_FILE, ReadFileSync WALLET_DATA_FILE,
      WriteFileSync WALLET_DATA_FILE ''{W}'']
   \<and> ReadFileSync WALLET_DATA_FILE \<in> set (events (chatbot world_ok) (start fs_old))"
  by (simp add: world_ok_run) (simp add: WALLET_DATA_FILE_def)

section \<open>Errors in the chat\<close>

lemma runChatMode_throw_skips_close:
  assumes "outcome (chatSession ag cfg ls) s = Throw x"
  shows "outcome (runChatMode ag cfg ls) s = Exit 1"
    and "RlClose \<notin> set (events (runChatMode ag cfg ls) s)"
    and "last (events (runChatMode ag cfg ls) s) = ProcessExit 1"
  using assms RlClose_notin_chatSession [of ag cfg ls s]
  by (simp_all add: run_runChatMode epilogue_def split: thrown.splits)

text \<open>
  C1. When the agent throws on the opening prompt, \<^verbatim>\<open>runChatMode\<close> prints the message and
  calls \<^verbatim>\<open>process.exit(1)\<close> inside its \<^verbatim>\<open>catch\<close> block. The process ends there with status 1
  and \<^verbatim>\<open>rl.close()\<close> in the \<^verbatim>\<open>finally\<close> block is never reached: the input reader is not
  closed on this exit path.
\<close>

theorem runChatMode_error_exits_without_close:
  "events (runChatMode agent_boom config0 [''hello'']) (start fs_empty) =
     [ConsoleLog [S ''Running in chat mode... Type 'exit' to quit''],
      CreateInterface,
      ConsoleLog [S ''\<newline>Prompt: What game can the user play against the agent?''],
      AgentStream ''What game can the user play against the agent?''
        ''CDP AgentKit Chatbot Example!'',
      ConsoleError [S ''Error:'', S ''boom''],
      ProcessExit 1]
   \<and> outcome (runChatMode agent_boom config0 [''hello'']) (start fs_empty) = Exit 1
   \<and> RlClose \<notin> set (events (runChatMode agent_boom config0 [''hello'']) (start fs_empty))"
proof -
  have thrown: "outcome (chatSession agent_boom config0 [''hello'']) (start fs_empty) =
      Throw (ErrorObj ''boom'')"
    by (simp add: chatSession_def agent_boom_def start_def)
  have "events (chatSession agent_boom config0 [''hello'']) (start fs_empty) =
      [ConsoleLog [S ''\<newline>Prompt: What game can the user play against the agent?''],
       AgentStream ''What game can the user play against the agent?''
         ''CDP AgentKit Chatbot Example!'']"
    by (simp add: chatSession_def agent_boom_def config0_def initialPrompt_def start_def)
  with thrown show ?thesis
    by (simp add: run_runChatMode epilogue_def)
qed

section \<open>The default network\<close>

text \<open>
  C8 as stated fails: with no variable set at all, \<^verbatim>\<open>NETWORK_ID\<close> is unset, yet no warning
  is printed and the process ends with status 1.
\<close>

theorem network_default_counterexample:
  "env world_none ''NETWORK_ID'' = None
   \<and> ConsoleWarn [S ''Warning: NETWORK_ID not set, defaulting to base-sepolia testnet'']
       \<notin> set (events (chatbot world_none) (start fs_empty))
   \<and> outcome (chatbot world_none) (start fs_empty) = Exit 1"
  by (simp add: world_none_run) (simp add: world_none_def env_none_def)

text \<open>
  C8, as amended. In every environment in which the three required variables are set and
  \<^verbatim>\<open>NETWORK_ID\<close> is unset or empty, \<^verbatim>\<open>validateEnvironment\<close> prints the warning and returns
  without ending the process, every configuration that the run passes to the wallet
  provider has the network identifier \<^verbatim>\<open>base-sepolia\<close>, and such a configuration is passed
  whenever the run reaches that call.
\<close>

theorem network_default_when_credentials_set:
  assumes "\<forall>v \<in> set requiredVars. env w v \<noteq> None \<and> env w v \<noteq> Some []"
    and "env w ''NETWORK_ID'' = None \<or> env w ''NETWORK_ID'' = Some []"
  shows "events (validateEnvironment w) s =
           [ConsoleWarn [S ''Warning: NETWORK_ID not set, defaulting to base-sepolia testnet'']]
         \<and> outcome (validateEnvironment w) s = Normal ()
         \<and> (\<forall>c. ConfigureWithWallet c \<in> set (events (chatbot w) s)
               \<longrightarrow> networkId c = ''base-sepolia'')
         \<and> (isMain w \<and> newChatOpenAI w = None
               \<longrightarrow> (\<exists>c. ConfigureWithWallet c \<in> set (events (chatbot w) s)))"
proof -
  have m: "missingVars w = []"
    using assms(1) by (simp add: missingVars_Nil falsy_iff)
  have f: "falsy (env w ''NETWORK_ID'')"
    using assms(2) by (simp add: falsy_iff)
  have net: "networkId (makeConfig w d) = ''base-sepolia''" for d
    using assms(2) by (auto simp: makeConfig_def)
  have "networkId c = ''base-sepolia''" if c: "ConfigureWithWallet c \<in> set (events (chatbot w) s)" for c
  proof -
    have "ConfigureWithWallet c \<notin> set (events (runChatMode ag cfg ls) s')" for ag cfg ls s'
      using runChatMode_events [of ag cfg ls s'] by (auto simp: chatEvents_def)
    with chatbot_cases [of w s] c have "ConfigureWithWallet c \<in> startupEvents w"
      by auto
    then show ?thesis
      using net by (auto simp: startupEvents_def initEvents_def)
  qed
  moreover have "\<exists>c. ConfigureWithWallet c \<in> set (events (chatbot w) s)"
    if "isMain w \<and> newChatOpenAI w = None"
  proof -
    obtain d where "outcome (readWalletData w) s = Normal d"
      by (simp add: run_readWalletData)
    from events_initializeAgent_prefix [OF _ this] that
    have "ConfigureWithWallet (makeConfig w d) \<in> set (events (initializeAgent w) s)"
      by auto
    then show ?thesis
      using m that by (auto simp: run_chatbot run_main)
  qed
  ultimately show ?thesis
    using m f by (simp add: run_validateEnvironment)
qed

theorem network_default_when_credentials_set_witness:
  "events (validateEnvironment world_ok) (start fs_empty) =
     [ConsoleWarn [S ''Warning: NETWORK_ID not set, defaulting to base-sepolia testnet'']]
   \<and> outcome (validateEnvironment world_ok) (start fs_empty) = Normal ()
   \<and> env world_ok ''NETWORK_ID'' = None"
proof -
  have a: "\<forall>v \<in> set requiredVars. env world_ok v \<noteq> None \<and> env world_ok v \<noteq> Some []"
    by (simp add: world_ok_def env_ok_def requiredVars_def)
  have b: "env world_ok ''NETWORK_ID'' = None \<or> env world_ok ''NETWORK_ID'' = Some []"
    by (simp add: world_ok_def env_ok_def)
  from network_default_when_credentials_set [OF a b, of "start fs_empty"] show ?thesis
    by (simp add: world_ok_def env_ok_def)
qed



section \<open>Turns of the conversation\<close>

lemma forwarded_append [simp]: "forwarded (xs @ ys) = forwarded xs @ forwarded ys"
  by (induction xs rule: forwarded.induct) simp_all

lemma linesRead_append [simp]: "linesRead (xs @ ys) = linesRead xs @ linesRead ys"
  by (induction xs rule: linesRead.induct) simp_all

lemma forwarded_Nil: "\<forall>m t. AgentStream m t \<notin> set xs \<Longrightarrow> forwarded xs = []"
  by (induction xs rule: forwarded.induct) (simp_all add: all_conj_distrib)

lemma linesRead_Nil: "\<forall>l. LineRead l \<notin> set xs \<Longrightarrow> linesRead xs = []"
  by (induction xs rule: linesRead.induct) (simp_all add: all_conj_distrib)

lemma forAwait_plain [simp]:
  "forwarded (events (forAwait cs ending) s) = []"
  "linesRead (events (forAwait cs ending) s) = []"
  "AgentStream m t \<notin> set (events (forAwait cs ending) s)"
  "Question q \<notin> set (events (forAwait cs ending) s)"
  using forAwait_ConsoleLog [of cs ending s]
  by (auto intro!: forwarded_Nil linesRead_Nil)














lemma epilogue_plain [simp]:
  "forwarded (epilogue r) = []" "linesRead (epilogue r) = []"
  by (simp_all add: epilogue_def split: completion.splits thrown.splits)







section \<open>Lines other than the exit command\<close>













end
